theory Spec2Isabelle
  imports Complex_Main "HOL-Library.AList"
begin

section \<open>Designer Booking API: the data model\<close>

text \<open>
  The module \<^verbatim>\<open>main.py\<close> serves six resources over a document store. A stored
  document is a Python dict: here an association list from field names to values, in
  the order of the keys. The values are the ones the schemas of \<^verbatim>\<open>schemas.py\<close>
  produce: strings, lists, nested dicts, \<^verbatim>\<open>None\<close>, the identifier the store
  assigns, and \<^verbatim>\<open>datetime\<close>, kept as the integer timestamp the store orders
  it by. The one \<^verbatim>\<open>float\<close> field (\<^verbatim>\<open>hourly_rate\<close>) is carried as a
  rational number; no handler computes with it.
\<close>

datatype objectid = Oid nat

datatype bson =
    Null
  | Str string
  | Number rat
  | Date int
  | ObjId objectid
  | Arr "bson list"
  | Doc "(string \<times> bson) list"

type_synonym document = "(string \<times> bson) list"

subsection \<open>The schemas of \<^verbatim>\<open>schemas.py\<close>\<close>

datatype Status = Pending | Confirmed | Cancelled

datatype AdType = AdBusiness | AdFreelancer

datatype AuthorType = AuthorBusiness | AuthorFreelancer | AuthorGuest

fun Status_str :: "Status \<Rightarrow> string" where
  "Status_str Pending = ''pending''"
| "Status_str Confirmed = ''confirmed''"
| "Status_str Cancelled = ''cancelled''"

fun AdType_str :: "AdType \<Rightarrow> string" where
  "AdType_str AdBusiness = ''business''"
| "AdType_str AdFreelancer = ''freelancer''"

fun AuthorType_str :: "AuthorType \<Rightarrow> string" where
  "AuthorType_str AuthorBusiness = ''business''"
| "AuthorType_str AuthorFreelancer = ''freelancer''"
| "AuthorType_str AuthorGuest = ''guest''"

record Freelancer =
  name :: string
  email :: string
  skills :: "string list"
  bio :: "string option"
  avatar_url :: "string option"
  hourly_rate :: "rat option"
  portfolio_links :: "string list"
  availability :: "document list"

record PortfolioItem =
  freelancer_id :: string
  title :: string
  description :: "string option"
  project_url :: "string option"
  image_url :: "string option"
  tags :: "string list"

record Reservation =
  business_name :: string
  business_email :: string
  freelancer_id :: string
  start_time :: int
  end_time :: int
  "notes" :: "string option"
  status :: Status

record Advertisement =
  ad_type :: AdType
  heading :: string
  content :: string
  designers :: "string list"
  business_name :: "string option"
  freelancer_id :: "string option"

record ForumThread =
  title :: string
  content :: string
  author_type :: AuthorType
  author_name :: string
  tags :: "string list"

record ForumPost =
  thread_id :: string
  content :: string
  author_name :: string

text \<open>
  The fields of a validated model as a dict (pydantic's \<^verbatim>\<open>model_dump\<close>), in the
  order the class declares them; an absent optional field is \<^verbatim>\<open>None\<close>.
\<close>

definition opt_str :: "string option \<Rightarrow> bson" where
  "opt_str x = (case x of None \<Rightarrow> Null | Some s \<Rightarrow> Str s)"

definition Freelancer_dump :: "Freelancer \<Rightarrow> document" where
  "Freelancer_dump f =
     [(''name'', Str (Freelancer.name f)),
      (''email'', Str (Freelancer.email f)),
      (''skills'', Arr (map Str (Freelancer.skills f))),
      (''bio'', opt_str (Freelancer.bio f)),
      (''avatar_url'', opt_str (Freelancer.avatar_url f)),
      (''hourly_rate'', (case Freelancer.hourly_rate f of None \<Rightarrow> Null | Some r \<Rightarrow> Number r)),
      (''portfolio_links'', Arr (map Str (Freelancer.portfolio_links f))),
      (''availability'', Arr (map Doc (Freelancer.availability f)))]"

definition PortfolioItem_dump :: "PortfolioItem \<Rightarrow> document" where
  "PortfolioItem_dump p =
     [(''freelancer_id'', Str (PortfolioItem.freelancer_id p)),
      (''title'', Str (PortfolioItem.title p)),
      (''description'', opt_str (PortfolioItem.description p)),
      (''project_url'', opt_str (PortfolioItem.project_url p)),
      (''image_url'', opt_str (PortfolioItem.image_url p)),
      (''tags'', Arr (map Str (PortfolioItem.tags p)))]"

definition Reservation_dump :: "Reservation \<Rightarrow> document" where
  "Reservation_dump r =
     [(''business_name'', Str (Reservation.business_name r)),
      (''business_email'', Str (Reservation.business_email r)),
      (''freelancer_id'', Str (Reservation.freelancer_id r)),
      (''start_time'', Date (Reservation.start_time r)),
      (''end_time'', Date (Reservation.end_time r)),
      (''notes'', opt_str (Reservation.notes r)),
      (''status'', Str (Status_str (Reservation.status r)))]"

definition Advertisement_dump :: "Advertisement \<Rightarrow> document" where
  "Advertisement_dump a =
     [(''ad_type'', Str (AdType_str (Advertisement.ad_type a))),
      (''heading'', Str (Advertisement.heading a)),
      (''content'', Str (Advertisement.content a)),
      (''designers'', Arr (map Str (Advertisement.designers a))),
      (''business_name'', opt_str (Advertisement.business_name a)),
      (''freelancer_id'', opt_str (Advertisement.freelancer_id a))]"

definition ForumThread_dump :: "ForumThread \<Rightarrow> document" where
  "ForumThread_dump t =
     [(''title'', Str (ForumThread.title t)),
      (''content'', Str (ForumThread.content t)),
      (''author_type'', Str (AuthorType_str (ForumThread.author_type t))),
      (''author_name'', Str (ForumThread.author_name t)),
      (''tags'', Arr (map Str (ForumThread.tags t)))]"

definition ForumPost_dump :: "ForumPost \<Rightarrow> document" where
  "ForumPost_dump p =
     [(''thread_id'', Str (ForumPost.thread_id p)),
      (''content'', Str (ForumPost.content p)),
      (''author_name'', Str (ForumPost.author_name p))]"

section \<open>The libraries and the store\<close>

text \<open>
  Three operations of the imported libraries are parameters of every handler, so that
  what is proved holds for whatever they compute:
  \<^item> \<open>ObjectId\<close>: bson's constructor on a string; \<open>None\<close> when it raises;
  \<^item> \<open>str\<close>: Python's \<^verbatim>\<open>str()\<close> on a value read from a document;
  \<^item> \<open>regex\<close>: the store's \<^verbatim>\<open>$regex\<close> operator with option \<^verbatim>\<open>i\<close>: a
    pattern the engine accepts gives the set of strings it matches somewhere, ignoring
    case; a pattern it rejects gives \<open>None\<close>, and the query fails.
\<close>

record libs =
  ObjectId :: "string \<Rightarrow> objectid option"
  str :: "bson \<Rightarrow> string"
  regex :: "string \<Rightarrow> (string \<Rightarrow> bool) option"

text \<open>
  The store: the collections by name, each in insertion order, and the counter the next
  identifier comes from. The store is taken to be connected.
\<close>

record store =
  colls :: "(string \<times> document list) list"
  next_id :: nat

definition coll :: "store \<Rightarrow> string \<Rightarrow> document list" where
  "coll st c = (case map_of (colls st) c of None \<Rightarrow> [] | Some ds \<Rightarrow> ds)"

text \<open>
  The filters the handlers build. A Python dict of conditions is the conjunction
  \<open>And\<close> of its entries (\<open>And []\<close> is the empty filter \<^verbatim>\<open>{}\<close>);
  \<^verbatim>\<open>{"$regex": p, "$options": "i"}\<close> is \<open>Regex p\<close>.
\<close>

datatype cond = Eq bson | Lt bson | Gt bson | Regex string

datatype query = Key string cond | And "query list" | Or "query list"

fun holds :: "libs \<Rightarrow> bson option \<Rightarrow> cond \<Rightarrow> bool" where
  "holds L v (Eq w) = (v = Some w)"
| "holds L v (Lt w) =
     (case v of Some (Date a) \<Rightarrow> (case w of Date b \<Rightarrow> a < b | _ \<Rightarrow> False) | _ \<Rightarrow> False)"
| "holds L v (Gt w) =
     (case v of Some (Date a) \<Rightarrow> (case w of Date b \<Rightarrow> a > b | _ \<Rightarrow> False) | _ \<Rightarrow> False)"
| "holds L v (Regex p) =
     (case regex L p of
        None \<Rightarrow> False
      | Some m \<Rightarrow>
          (case v of
             Some (Str s) \<Rightarrow> m s
           | Some (Arr xs) \<Rightarrow> list_ex (\<lambda>x. case x of Str s \<Rightarrow> m s | _ \<Rightarrow> False) xs
           | _ \<Rightarrow> False))"

fun matches :: "libs \<Rightarrow> document \<Rightarrow> query \<Rightarrow> bool" where
  "matches L d (Key k c) = holds L (map_of d k) c"
| "matches L d (And qs) = list_all (matches L d) qs"
| "matches L d (Or qs) = list_ex (matches L d) qs"

fun query_ok :: "libs \<Rightarrow> query \<Rightarrow> bool" where
  "query_ok L (Key k (Regex p)) = (regex L p \<noteq> None)"
| "query_ok L (Key k c) = True"
| "query_ok L (And qs) = list_all (query_ok L) qs"
| "query_ok L (Or qs) = list_all (query_ok L) qs"

text \<open>
  pymongo's \<^verbatim>\<open>find_one\<close>: the first document of the collection that the filter
  matches, or \<^verbatim>\<open>None\<close>. The handlers call it with filters that have no
  \<^verbatim>\<open>$regex\<close>.
\<close>

definition find_one :: "libs \<Rightarrow> store \<Rightarrow> string \<Rightarrow> query \<Rightarrow> document option" where
  "find_one L st c q = List.find (\<lambda>d. matches L d q) (coll st c)"

text \<open>Python's truth value of what \<^verbatim>\<open>find_one\<close> returns: \<^verbatim>\<open>None\<close> and the empty dict are false.\<close>

definition truthy_doc :: "document option \<Rightarrow> bool" where
  "truthy_doc r = (case r of None \<Rightarrow> False | Some d \<Rightarrow> d \<noteq> [])"

subsection \<open>The gateway: \<^verbatim>\<open>create_document\<close> and \<^verbatim>\<open>get_documents\<close>\<close>

datatype error = HTTPException nat string | RequestValidationError | OperationFailure

datatype response = IdResponse string | ItemsResponse "document list"

type_synonym result = "error + response"

text \<open>
  Modelled from the spec: \<^verbatim>\<open>create_document\<close> of the module \<^verbatim>\<open>database\<close>, which
  is not among the sources. It serializes the record's fields, excluding any
  client-supplied identity, into a new document of the named collection and returns the
  store-generated identifier as a string. The handler hands it the fields of the model.
\<close>

definition create_document :: "libs \<Rightarrow> string \<Rightarrow> document \<Rightarrow> store \<Rightarrow> string \<times> store" where
  "create_document L c data st =
     (let oid = ObjId (Oid (next_id st));
          d = (''_id'', oid) # AList.delete ''_id'' data
      in (str L oid,
          \<lparr>colls = AList.update c (coll st c @ [d]) (colls st), next_id = Suc (next_id st)\<rparr>))"

text \<open>
  Modelled from the spec: \<^verbatim>\<open>get_documents\<close> of the module \<^verbatim>\<open>database\<close>, which
  is not among the sources. It returns the documents matching the filter in the store's
  order (insertion order); no limit returns all matches, a numeric limit caps the result
  count. The documents come with the identifier as stored; the handlers turn it into a
  string. A filter with a pattern the store rejects fails the query.
\<close>

definition get_documents ::
  "libs \<Rightarrow> string \<Rightarrow> query \<Rightarrow> nat option \<Rightarrow> store \<Rightarrow> error + document list" where
  "get_documents L c filt limit st =
     (if \<not> query_ok L filt then Inl OperationFailure
      else let found = filter (\<lambda>d. matches L d filt) (coll st c)
           in Inr (case limit of None \<Rightarrow> found | Some n \<Rightarrow> take n found))"

section \<open>The handlers of \<^verbatim>\<open>main.py\<close>\<close>

text \<open>
  A handler that writes takes the store and returns its result with the store after it;
  a raised exception is \<open>Inl\<close>. Strings are lists of characters, \<^verbatim>\<open>lower()\<close>
  maps the letters \<^verbatim>\<open>A\<close> to \<^verbatim>\<open>Z\<close>, \<^verbatim>\<open>in\<close> is the substring test.
\<close>

definition lower_char :: "char \<Rightarrow> char" where
  "lower_char c =
     (let n = (of_char c :: nat) in if 65 \<le> n \<and> n \<le> 90 then char_of (n + 32) else c)"

definition lower :: "string \<Rightarrow> string" where
  "lower s = map lower_char s"

fun startswith :: "string \<Rightarrow> string \<Rightarrow> bool" where
  "startswith s [] = True"
| "startswith [] (p # ps) = False"
| "startswith (c # cs) (p # ps) = (c = p \<and> startswith cs ps)"

fun str_in :: "string \<Rightarrow> string \<Rightarrow> bool" where
  "str_in n [] = (n = [])"
| "str_in n (c # cs) = (startswith (c # cs) n \<or> str_in n cs)"

fun join :: "string \<Rightarrow> string list \<Rightarrow> string" where
  "join sep [] = []"
| "join sep [x] = x"
| "join sep (x # y # ys) = x @ sep @ join sep (y # ys)"

text \<open>The loop \<^verbatim>\<open>for d in docs: d["_id"] = str(d.get("_id"))\<close>, on one document.\<close>

definition with_str_id :: "libs \<Rightarrow> document \<Rightarrow> document" where
  "with_str_id L d =
     AList.update ''_id'' (Str (str L (case map_of d ''_id'' of None \<Rightarrow> Null | Some v \<Rightarrow> v))) d"

definition items :: "libs \<Rightarrow> error + document list \<Rightarrow> result" where
  "items L r = (case r of Inl e \<Rightarrow> Inl e | Inr docs \<Rightarrow> Inr (ItemsResponse (map (with_str_id L) docs)))"

text \<open>
  \<^verbatim>\<open>{k: v} if v else {}\<close>: an optional query parameter gives a condition when it
  is neither \<^verbatim>\<open>None\<close> nor the empty string.
\<close>

fun if_given :: "string option \<Rightarrow> (string \<Rightarrow> query) \<Rightarrow> query list" where
  "if_given None f = []"
| "if_given (Some v) f = (if v = [] then [] else [f v])"

subsection \<open>Freelancers\<close>

definition create_freelancer :: "libs \<Rightarrow> store \<Rightarrow> Freelancer \<Rightarrow> result \<times> store" where
  "create_freelancer L st payload =
     (let (inserted_id, st') = create_document L ''freelancer'' (Freelancer_dump payload) st
      in (Inr (IdResponse inserted_id), st'))"

definition filt_freelancers :: "string option \<Rightarrow> query" where
  "filt_freelancers skill = And (if_given skill (\<lambda>v. Key ''skills'' (Regex v)))"

definition list_freelancers :: "libs \<Rightarrow> store \<Rightarrow> string option \<Rightarrow> result" where
  "list_freelancers L st skill =
     (let filt = filt_freelancers skill
      in items L (get_documents L ''freelancer'' filt None st))"

subsection \<open>Portfolio\<close>

definition add_portfolio :: "libs \<Rightarrow> store \<Rightarrow> PortfolioItem \<Rightarrow> result \<times> store" where
  "add_portfolio L st item =
     (case ObjectId L (PortfolioItem.freelancer_id item) of
        None \<Rightarrow> (Inl (HTTPException 400 ''Invalid freelancer_id''), st)
      | Some oid \<Rightarrow>
          if \<not> truthy_doc (find_one L st ''freelancer'' (And [Key ''_id'' (Eq (ObjId oid))]))
          then (Inl (HTTPException 404 ''Freelancer not found''), st)
          else let (inserted_id, st') = create_document L ''portfolioitem'' (PortfolioItem_dump item) st
               in (Inr (IdResponse inserted_id), st'))"

definition filt_portfolio :: "string option \<Rightarrow> query" where
  "filt_portfolio freelancer_id' =
     And (if_given freelancer_id' (\<lambda>v. Key ''freelancer_id'' (Eq (Str v))))"

definition list_portfolio :: "libs \<Rightarrow> store \<Rightarrow> string option \<Rightarrow> result" where
  "list_portfolio L st freelancer_id' =
     (let filt = filt_portfolio freelancer_id'
      in items L (get_documents L ''portfolioitem'' filt None st))"

subsection \<open>Reservations\<close>

definition overlap_filter :: "Reservation \<Rightarrow> query" where
  "overlap_filter res =
     And [Key ''freelancer_id'' (Eq (Str (Reservation.freelancer_id res))),
          Or [And [Key ''start_time'' (Lt (Date (Reservation.end_time res))),
                   Key ''end_time'' (Gt (Date (Reservation.start_time res)))]]]"

definition create_reservation :: "libs \<Rightarrow> store \<Rightarrow> Reservation \<Rightarrow> result \<times> store" where
  "create_reservation L st res =
     (case ObjectId L (Reservation.freelancer_id res) of
        None \<Rightarrow> (Inl (HTTPException 400 ''Invalid freelancer_id''), st)
      | Some oid \<Rightarrow>
          if \<not> truthy_doc (find_one L st ''freelancer'' (And [Key ''_id'' (Eq (ObjId oid))]))
          then (Inl (HTTPException 404 ''Freelancer not found''), st)
          else if truthy_doc (find_one L st ''reservation'' (overlap_filter res))
          then (Inl (HTTPException 409 ''Reservation overlaps with an existing booking''), st)
          else let (inserted_id, st') = create_document L ''reservation'' (Reservation_dump res) st
               in (Inr (IdResponse inserted_id), st'))"

definition filt_reservations :: "string option \<Rightarrow> string option \<Rightarrow> query" where
  "filt_reservations freelancer_id' business_email' =
     And (if_given freelancer_id' (\<lambda>v. Key ''freelancer_id'' (Eq (Str v)))
          @ if_given business_email' (\<lambda>v. Key ''business_email'' (Eq (Str v))))"

definition list_reservations :: "libs \<Rightarrow> store \<Rightarrow> string option \<Rightarrow> string option \<Rightarrow> result" where
  "list_reservations L st freelancer_id' business_email' =
     (let filt = filt_reservations freelancer_id' business_email'
      in items L (get_documents L ''reservation'' filt None st))"

subsection \<open>Advertisements\<close>

definition create_ad :: "libs \<Rightarrow> store \<Rightarrow> Advertisement \<Rightarrow> result \<times> store" where
  "create_ad L st ad =
     (let raised =
        (if Advertisement.ad_type ad = AdBusiness then
           if Advertisement.designers ad = []
           then Some (HTTPException 400 ''Business ads must include designers responsible'')
           else let heading_lower = lower (Advertisement.heading ad);
                    missing = filter (\<lambda>n. \<not> str_in (lower n) heading_lower)
                                (Advertisement.designers ad)
                in if missing \<noteq> []
                   then Some (HTTPException 400
                                (''Heading must include designers: '' @ join '', '' missing))
                   else None
         else None)
      in case raised of
           Some e \<Rightarrow> (Inl e, st)
         | None \<Rightarrow>
             let (inserted_id, st') = create_document L ''advertisement'' (Advertisement_dump ad) st
             in (Inr (IdResponse inserted_id), st'))"

definition filt_ads :: "string option \<Rightarrow> query" where
  "filt_ads ad_type' = And (if_given ad_type' (\<lambda>v. Key ''ad_type'' (Eq (Str v))))"

definition list_ads :: "libs \<Rightarrow> store \<Rightarrow> string option \<Rightarrow> result" where
  "list_ads L st ad_type' =
     (let filt = filt_ads ad_type'
      in items L (get_documents L ''advertisement'' filt (Some 50) st))"

subsection \<open>Forum\<close>

definition create_thread :: "libs \<Rightarrow> store \<Rightarrow> ForumThread \<Rightarrow> result \<times> store" where
  "create_thread L st thread =
     (let (inserted_id, st') = create_document L ''forumthread'' (ForumThread_dump thread) st
      in (Inr (IdResponse inserted_id), st'))"

definition filt_threads :: "string option \<Rightarrow> query" where
  "filt_threads tag = And (if_given tag (\<lambda>v. Key ''tags'' (Regex v)))"

definition list_threads :: "libs \<Rightarrow> store \<Rightarrow> string option \<Rightarrow> result" where
  "list_threads L st tag =
     (let filt = filt_threads tag
      in items L (get_documents L ''forumthread'' filt (Some 50) st))"

definition create_post :: "libs \<Rightarrow> store \<Rightarrow> ForumPost \<Rightarrow> result \<times> store" where
  "create_post L st post =
     (case ObjectId L (ForumPost.thread_id post) of
        None \<Rightarrow> (Inl (HTTPException 400 ''Invalid thread_id''), st)
      | Some oid \<Rightarrow>
          if \<not> truthy_doc (find_one L st ''forumthread'' (And [Key ''_id'' (Eq (ObjId oid))]))
          then (Inl (HTTPException 404 ''Thread not found''), st)
          else let (inserted_id, st') = create_document L ''forumpost'' (ForumPost_dump post) st
               in (Inr (IdResponse inserted_id), st'))"

definition filt_posts :: "string \<Rightarrow> query" where
  "filt_posts thread_id' = And [Key ''thread_id'' (Eq (Str thread_id'))]"

definition list_posts :: "libs \<Rightarrow> store \<Rightarrow> string \<Rightarrow> result" where
  "list_posts L st thread_id' =
     items L (get_documents L ''forumpost'' (filt_posts thread_id') (Some 200) st)"

text \<open>
  The framework validates the request body against the schema the handler names before
  it calls the handler: a body that does not validate is answered with status 422 and
  the handler does not run. The validation is a parameter.
\<close>

definition app_post ::
  "('b \<Rightarrow> 'a option) \<Rightarrow> (store \<Rightarrow> 'a \<Rightarrow> result \<times> store) \<Rightarrow> store \<Rightarrow> 'b \<Rightarrow> result \<times> store" where
  "app_post validate handler st body =
     (case validate body of
        None \<Rightarrow> (Inl RequestValidationError, st)
      | Some payload \<Rightarrow> handler st payload)"

fun status_code :: "error \<Rightarrow> nat" where
  "status_code (HTTPException code detail) = code"
| "status_code RequestValidationError = 422"
| "status_code OperationFailure = 500"

section \<open>The vocabulary of the specification\<close>

text \<open>The status of the response: 200 when the handler returns.\<close>

fun http_status :: "result \<Rightarrow> nat" where
  "http_status (Inl e) = status_code e"
| "http_status (Inr r) = 200"

text \<open>
  A document as the store keeps it: the fields with the identifier in front.
\<close>

definition stored :: "nat \<Rightarrow> document \<Rightarrow> document" where
  "stored n data = (''_id'', ObjId (Oid n)) # data"

text \<open>
  A reference resolves: the string parses as an identifier, and a document of the
  collection has that identifier.
\<close>

definition resolves :: "libs \<Rightarrow> store \<Rightarrow> string \<Rightarrow> string \<Rightarrow> bool" where
  "resolves L st c s =
     (case ObjectId L s of
        None \<Rightarrow> False
      | Some oid \<Rightarrow> list_ex (\<lambda>d. map_of d ''_id'' = Some (ObjId oid)) (coll st c))"

text \<open>
  An existing reservation overlaps a new one: same \<^verbatim>\<open>freelancer_id\<close>,
  \<^verbatim>\<open>existing.start_time < new.end_time\<close> and \<^verbatim>\<open>existing.end_time > new.start_time\<close>.
\<close>

definition overlaps :: "document \<Rightarrow> Reservation \<Rightarrow> bool" where
  "overlaps existing new =
     (map_of existing ''freelancer_id'' = Some (Str (Reservation.freelancer_id new)) \<and>
      (case map_of existing ''start_time'' of
         Some (Date s) \<Rightarrow>
           (case map_of existing ''end_time'' of
              Some (Date e) \<Rightarrow> s < Reservation.end_time new \<and> e > Reservation.start_time new
            | _ \<Rightarrow> False)
       | _ \<Rightarrow> False))"

text \<open>
  A name occurs in a text as a case-insensitive substring: at some position of the text,
  the next characters, as many as the name has, are the name up to the case of letters.
\<close>

definition ci_occurs :: "string \<Rightarrow> string \<Rightarrow> bool" where
  "ci_occurs n h =
     list_ex (\<lambda>i. lower (take (length n) (drop i h)) = lower n) [0 ..< Suc (length h)]"


text \<open>The documents of a collection that a filter matches, and the size of a list response.\<close>

definition matching :: "libs \<Rightarrow> store \<Rightarrow> string \<Rightarrow> query \<Rightarrow> document list" where
  "matching L st c q = filter (\<lambda>d. matches L d q) (coll st c)"

definition item_count :: "result \<Rightarrow> nat" where
  "item_count r = (case r of Inr (ItemsResponse xs) \<Rightarrow> length xs | _ \<Rightarrow> 0)"


text \<open>
  A list response has the entity created with identifier \<open>i\<close> and fields \<open>data\<close>:
  one of its items is the fields with \<open>i\<close> as a string under the key \<^verbatim>\<open>_id\<close>.
\<close>

definition listed :: "result \<Rightarrow> string \<Rightarrow> document \<Rightarrow> bool" where
  "listed r i data =
     (case r of Inr (ItemsResponse xs) \<Rightarrow> ((''_id'', Str i) # data) \<in> set xs | _ \<Rightarrow> False)"

section \<open>Concrete requests\<close>

text \<open>
  An instance of the libraries on which the handlers can be evaluated: identifiers are
  written as 24 hexadecimal digits, and a pattern is read literally.
\<close>

definition hex_digits :: string where
  "hex_digits = ''0123456789abcdef''"

fun hex :: "nat \<Rightarrow> nat \<Rightarrow> string" where
  "hex 0 n = []"
| "hex (Suc w) n = hex w (n div 16) @ [hex_digits ! (n mod 16)]"

definition digit_of :: "char \<Rightarrow> nat option" where
  "digit_of c =
     (let n = (of_char c :: nat)
      in if 48 \<le> n \<and> n \<le> 57 then Some (n - 48)
         else if 97 \<le> n \<and> n \<le> 102 then Some (n - 87)
         else if 65 \<le> n \<and> n \<le> 70 then Some (n - 55)
         else None)"

fun unhex :: "string \<Rightarrow> nat \<Rightarrow> nat option" where
  "unhex [] acc = Some acc"
| "unhex (c # cs) acc = (case digit_of c of None \<Rightarrow> None | Some d \<Rightarrow> unhex cs (16 * acc + d))"

definition ObjectId_hex :: "string \<Rightarrow> objectid option" where
  "ObjectId_hex s = (if length s = 24 then map_option Oid (unhex s 0) else None)"

definition str_hex :: "bson \<Rightarrow> string" where
  "str_hex v = (case v of ObjId (Oid n) \<Rightarrow> hex 24 n | Str s \<Rightarrow> s | _ \<Rightarrow> ''None'')"

definition regex_literal :: "string \<Rightarrow> (string \<Rightarrow> bool) option" where
  "regex_literal p = Some (\<lambda>s. str_in (lower p) (lower s))"

definition lib0 :: libs where
  "lib0 = \<lparr>ObjectId = ObjectId_hex, str = str_hex, regex = regex_literal\<rparr>"

definition empty_store :: store where
  "empty_store = \<lparr>colls = [], next_id = 0\<rparr>"

primrec repeat :: "nat \<Rightarrow> (store \<Rightarrow> result \<times> store) \<Rightarrow> store \<Rightarrow> store" where
  "repeat 0 h st = st"
| "repeat (Suc n) h st = repeat n h (snd (h st))"

definition ana :: Freelancer where
  "ana = \<lparr>name = ''Ana'', email = ''ana@example.org'', skills = [''UX Design''], bio = None,
           avatar_url = None, hourly_rate = None, portfolio_links = [], availability = []\<rparr>"


definition one_freelancer :: store where
  "one_freelancer = snd (create_freelancer lib0 empty_store ana)"

text \<open>Times of day are written in minutes: 540 is 09:00, 600 is 10:00.\<close>

definition booking :: "int \<Rightarrow> int \<Rightarrow> Reservation" where
  "booking s e =
     \<lparr>Reservation.business_name = ''Acme'',
      Reservation.business_email = ''office@acme.example'',
      Reservation.freelancer_id = ''000000000000000000000000'',
      Reservation.start_time = s, Reservation.end_time = e,
      Reservation.notes = None, Reservation.status = Pending\<rparr>"

definition booked_9_10 :: store where
  "booked_9_10 = snd (create_reservation lib0 one_freelancer (booking 540 600))"


definition ana_ad :: "string \<Rightarrow> Advertisement" where
  "ana_ad h =
     \<lparr>Advertisement.ad_type = AdBusiness, Advertisement.heading = h,
      Advertisement.content = ''See the new page'', Advertisement.designers = [''Ana''],
      Advertisement.business_name = None, Advertisement.freelancer_id = None\<rparr>"

definition fifty_ads :: store where
  "fifty_ads = repeat 50 (\<lambda>st. create_ad lib0 st (ana_ad ''Ana's new page'')) empty_store"

definition ux_thread :: ForumThread where
  "ux_thread =
     \<lparr>ForumThread.title = ''Portfolio review'', ForumThread.content = ''Feedback welcome'',
      ForumThread.author_type = AuthorGuest, ForumThread.author_name = ''Ana'',
      ForumThread.tags = [''ux'']\<rparr>"


definition one_thread :: store where
  "one_thread = snd (create_thread lib0 empty_store ux_thread)"

definition reply :: "string \<Rightarrow> ForumPost" where
  "reply t =
     \<lparr>ForumPost.thread_id = t, ForumPost.content = ''Looks good'',
      ForumPost.author_name = ''Ben''\<rparr>"

definition one_post :: store where
  "one_post = snd (create_post lib0 one_thread (reply ''000000000000000000000000''))"

definition piece :: "string \<Rightarrow> PortfolioItem" where
  "piece f =
     \<lparr>PortfolioItem.freelancer_id = f, PortfolioItem.title = ''Landing page'',
      PortfolioItem.description = None, PortfolioItem.project_url = None,
      PortfolioItem.image_url = None, PortfolioItem.tags = [''web'']\<rparr>"


section \<open>The store and its queries\<close>

lemma holds_None: "\<not> holds L None c"
  by (cases c) (auto split: option.splits)

lemma matches_nonempty: "matches L d (And (Key k c # qs)) \<Longrightarrow> d \<noteq> []"
  by (auto simp: holds_None)

lemma truthy_find_one:
  "truthy_doc (find_one L st c (And (Key k x # qs))) =
     list_ex (\<lambda>d. matches L d (And (Key k x # qs))) (coll st c)"
proof (cases "List.find (\<lambda>d. matches L d (And (Key k x # qs))) (coll st c)")
  case None
  then have "\<not> list_ex (\<lambda>d. matches L d (And (Key k x # qs))) (coll st c)"
    by (simp add: find_None_iff list_ex_iff del: matches.simps)
  moreover have "\<not> truthy_doc (find_one L st c (And (Key k x # qs)))"
    unfolding find_one_def None by (simp add: truthy_doc_def)
  ultimately show ?thesis by blast
next
  case (Some d)
  then have mem: "d \<in> set (coll st c)" and m: "matches L d (And (Key k x # qs))"
    by (auto simp: find_Some_iff simp del: matches.simps)
  from m have "d \<noteq> []" by (rule matches_nonempty)
  with mem m Some show ?thesis
    by (auto simp: find_one_def truthy_doc_def list_ex_iff simp del: matches.simps)
qed

lemma truthy_find_id:
  "truthy_doc (find_one L st c (And [Key ''_id'' (Eq (ObjId oid))])) =
     list_ex (\<lambda>d. map_of d ''_id'' = Some (ObjId oid)) (coll st c)"
  by (simp add: truthy_find_one)

lemma matches_overlap_filter: "matches L d (overlap_filter new) = overlaps d new"
  by (auto simp: overlap_filter_def overlaps_def split: option.splits bson.splits)

lemma truthy_find_overlap:
  "truthy_doc (find_one L st ''reservation'' (overlap_filter new)) =
     list_ex (\<lambda>d. overlaps d new) (coll st ''reservation'')"
proof -
  have "truthy_doc (find_one L st ''reservation'' (overlap_filter new)) =
          list_ex (\<lambda>d. matches L d (overlap_filter new)) (coll st ''reservation'')"
    unfolding overlap_filter_def by (rule truthy_find_one)
  then show ?thesis by (simp only: matches_overlap_filter)
qed

lemma coll_create_document:
  "coll (snd (create_document L c data st)) c' =
     (if c' = c then coll st c @ [stored (next_id st) (AList.delete ''_id'' data)] else coll st c')"
  by (auto simp: create_document_def coll_def Let_def stored_def update_conv')

lemma fst_create_document: "fst (create_document L c data st) = str L (ObjId (Oid (next_id st)))"
  by (simp add: create_document_def Let_def)

lemma next_id_create_document: "next_id (snd (create_document L c data st)) = Suc (next_id st)"
  by (simp add: create_document_def Let_def)

lemma delete_id_Reservation: "AList.delete ''_id'' (Reservation_dump r) = Reservation_dump r"
  by (simp add: Reservation_dump_def AList.delete_eq)

lemma overlaps_stored_Reservation:
  "overlaps (stored n (Reservation_dump r)) new =
     (Reservation.freelancer_id r = Reservation.freelancer_id new \<and>
      Reservation.start_time r < Reservation.end_time new \<and>
      Reservation.end_time r > Reservation.start_time new)"
  by (simp add: overlaps_def stored_def Reservation_dump_def)

lemma create_reservation_cases:
  assumes "resolves L st ''freelancer'' (Reservation.freelancer_id new)"
  shows "create_reservation L st new =
     (if list_ex (\<lambda>d. overlaps d new) (coll st ''reservation'')
      then (Inl (HTTPException 409 ''Reservation overlaps with an existing booking''), st)
      else (Inr (IdResponse (str L (ObjId (Oid (next_id st))))),
            snd (create_document L ''reservation'' (Reservation_dump new) st)))"
  using assms
  by (auto simp: create_reservation_def resolves_def truthy_find_id truthy_find_overlap
      create_document_def Let_def split: option.splits)

lemma resolves_after_create:
  "c \<noteq> c' \<Longrightarrow> resolves L (snd (create_document L c data st)) c' s = resolves L st c' s"
  by (auto simp: resolves_def coll_create_document split: option.splits)

section \<open>Reservations do not overlap\<close>

text \<open>
  C1. For every reservation-creation request whose \<^verbatim>\<open>freelancer_id\<close> resolves to an
  existing freelancer, the request is rejected with a 409 conflict if and only if some
  existing reservation with the same \<^verbatim>\<open>freelancer_id\<close>, whatever its status,
  satisfies \<^verbatim>\<open>existing.start_time < new.end_time\<close> and
  \<^verbatim>\<open>existing.end_time > new.start_time\<close>; otherwise it is accepted. On a stored
  reservation the test reads these three fields and no other. In particular,
  when a second request for the same freelancer starts where the first ends, and neither
  overlaps a reservation that was there before, both are accepted one after the other.
\<close>

theorem reservation_conflict_iff_overlap:
  assumes "resolves L st ''freelancer'' (Reservation.freelancer_id new)"
  shows "((fst (create_reservation L st new) =
             Inl (HTTPException 409 ''Reservation overlaps with an existing booking''))
          = list_ex (\<lambda>existing. overlaps existing new) (coll st ''reservation''))
       \<and> ((\<exists>i st'. create_reservation L st new = (Inr (IdResponse i), st'))
          = (\<not> list_ex (\<lambda>existing. overlaps existing new) (coll st ''reservation'')))
       \<and> (\<forall>n r. overlaps (stored n (Reservation_dump r)) new =
            (Reservation.freelancer_id r = Reservation.freelancer_id new \<and>
             Reservation.start_time r < Reservation.end_time new \<and>
             Reservation.end_time r > Reservation.start_time new))
       \<and> (\<forall>second.
            Reservation.freelancer_id second = Reservation.freelancer_id new \<and>
            Reservation.start_time second = Reservation.end_time new \<and>
            \<not> list_ex (\<lambda>existing. overlaps existing new) (coll st ''reservation'') \<and>
            \<not> list_ex (\<lambda>existing. overlaps existing second) (coll st ''reservation'')
            \<longrightarrow> (\<exists>i st1 j st2.
                   create_reservation L st new = (Inr (IdResponse i), st1) \<and>
                   create_reservation L st1 second = (Inr (IdResponse j), st2)))"
proof (intro conjI allI impI)
  show "(fst (create_reservation L st new) =
             Inl (HTTPException 409 ''Reservation overlaps with an existing booking''))
          = list_ex (\<lambda>existing. overlaps existing new) (coll st ''reservation'')"
    by (simp add: create_reservation_cases[OF assms])
  show "(\<exists>i st'. create_reservation L st new = (Inr (IdResponse i), st'))
          = (\<not> list_ex (\<lambda>existing. overlaps existing new) (coll st ''reservation''))"
    by (simp add: create_reservation_cases[OF assms])
next
  fix n r
  show "overlaps (stored n (Reservation_dump r)) new =
            (Reservation.freelancer_id r = Reservation.freelancer_id new \<and>
             Reservation.start_time r < Reservation.end_time new \<and>
             Reservation.end_time r > Reservation.start_time new)"
    by (rule overlaps_stored_Reservation)
next
  fix second
  assume h: "Reservation.freelancer_id second = Reservation.freelancer_id new \<and>
            Reservation.start_time second = Reservation.end_time new \<and>
            \<not> list_ex (\<lambda>existing. overlaps existing new) (coll st ''reservation'') \<and>
            \<not> list_ex (\<lambda>existing. overlaps existing second) (coll st ''reservation'')"
  let ?st1 = "snd (create_document L ''reservation'' (Reservation_dump new) st)"
  have first: "create_reservation L st new =
      (Inr (IdResponse (str L (ObjId (Oid (next_id st))))), ?st1)"
    using h by (simp add: create_reservation_cases[OF assms])
  have res1: "resolves L ?st1 ''freelancer'' (Reservation.freelancer_id second)"
    using assms h by (simp add: resolves_after_create)
  have "\<not> overlaps (stored (next_id st) (Reservation_dump new)) second"
    using h by (simp add: overlaps_stored_Reservation)
  then have free: "\<not> list_ex (\<lambda>existing. overlaps existing second) (coll ?st1 ''reservation'')"
    using h by (simp add: coll_create_document delete_id_Reservation)
  have "create_reservation L ?st1 second =
      (Inr (IdResponse (str L (ObjId (Oid (next_id ?st1))))),
       snd (create_document L ''reservation'' (Reservation_dump second) ?st1))"
    using free by (simp add: create_reservation_cases[OF res1])
  with first show "\<exists>i st1 j st2.
                   create_reservation L st new = (Inr (IdResponse i), st1) \<and>
                   create_reservation L st1 second = (Inr (IdResponse j), st2)"
    by blast
qed

theorem reservation_conflict_iff_overlap_witness:
  "resolves lib0 booked_9_10 ''freelancer'' (Reservation.freelancer_id (booking 570 630))
   \<and> list_ex (\<lambda>existing. overlaps existing (booking 570 630)) (coll booked_9_10 ''reservation'')
   \<and> fst (create_reservation lib0 booked_9_10 (booking 570 630)) =
         Inl (HTTPException 409 ''Reservation overlaps with an existing booking'')
   \<and> (\<exists>i st1 j st2.
         create_reservation lib0 one_freelancer (booking 540 600) = (Inr (IdResponse i), st1) \<and>
         create_reservation lib0 st1 (booking 600 660) = (Inr (IdResponse j), st2))"
proof -
  have r: "resolves lib0 booked_9_10 ''freelancer'' (Reservation.freelancer_id (booking 570 630))"
    by code_simp
  have o: "list_ex (\<lambda>existing. overlaps existing (booking 570 630)) (coll booked_9_10 ''reservation'')"
    by code_simp
  have c: "fst (create_reservation lib0 booked_9_10 (booking 570 630)) =
         Inl (HTTPException 409 ''Reservation overlaps with an existing booking'')"
    using reservation_conflict_iff_overlap[OF r] o by blast
  have r0: "resolves lib0 one_freelancer ''freelancer'' (Reservation.freelancer_id (booking 540 600))"
    by code_simp
  have t: "Reservation.freelancer_id (booking 600 660) = Reservation.freelancer_id (booking 540 600) \<and>
           Reservation.start_time (booking 600 660) = Reservation.end_time (booking 540 600) \<and>
           \<not> list_ex (\<lambda>existing. overlaps existing (booking 540 600)) (coll one_freelancer ''reservation'') \<and>
           \<not> list_ex (\<lambda>existing. overlaps existing (booking 600 660)) (coll one_freelancer ''reservation'')"
    by code_simp
  have b: "\<exists>i st1 j st2.
         create_reservation lib0 one_freelancer (booking 540 600) = (Inr (IdResponse i), st1) \<and>
         create_reservation lib0 st1 (booking 600 660) = (Inr (IdResponse j), st2)"
    using reservation_conflict_iff_overlap[OF r0] t by blast
  from r o c b show ?thesis by blast
qed

section \<open>Advertisements name their designers\<close>

lemma startswith_take: "startswith s p = (take (length p) s = p)"
  by (induction s p rule: startswith.induct) auto

lemma str_in_position: "str_in n h = (\<exists>i\<le>length h. take (length n) (drop i h) = n)"
proof (induction h)
  case Nil
  then show ?case by auto
next
  case (Cons x xs)
  have "(\<exists>i\<le>length (x # xs). take (length n) (drop i (x # xs)) = n) =
        (take (length n) (x # xs) = n \<or> (\<exists>j\<le>length xs. take (length n) (drop j xs) = n))"
  proof
    assume "\<exists>i\<le>length (x # xs). take (length n) (drop i (x # xs)) = n"
    then obtain i where i: "i \<le> length (x # xs)" "take (length n) (drop i (x # xs)) = n"
      by blast
    show "take (length n) (x # xs) = n \<or> (\<exists>j\<le>length xs. take (length n) (drop j xs) = n)"
    proof (cases i)
      case 0
      with i show ?thesis by simp
    next
      case (Suc j)
      with i have "j \<le> length xs" "take (length n) (drop j xs) = n" by simp_all
      then show ?thesis by blast
    qed
  next
    assume "take (length n) (x # xs) = n \<or> (\<exists>j\<le>length xs. take (length n) (drop j xs) = n)"
    then show "\<exists>i\<le>length (x # xs). take (length n) (drop i (x # xs)) = n"
    proof
      assume "take (length n) (x # xs) = n"
      then have "take (length n) (drop 0 (x # xs)) = n" by simp
      then show ?thesis by blast
    next
      assume "\<exists>j\<le>length xs. take (length n) (drop j xs) = n"
      then obtain j where "j \<le> length xs" "take (length n) (drop j xs) = n" by blast
      then have "Suc j \<le> length (x # xs)" "take (length n) (drop (Suc j) (x # xs)) = n"
        by simp_all
      then show ?thesis by blast
    qed
  qed
  with Cons show ?case by (simp add: startswith_take)
qed

lemma str_in_lower: "str_in (lower n) (lower h) = ci_occurs n h"
proof -
  have "ci_occurs n h = (\<exists>i\<le>length h. lower (take (length n) (drop i h)) = lower n)"
    by (auto simp: ci_occurs_def list_ex_iff less_Suc_eq_le simp del: upt_Suc)
  also have "\<dots> = (\<exists>i\<le>length (lower h). take (length (lower n)) (drop i (lower h)) = lower n)"
    by (simp add: lower_def take_map drop_map)
  also have "\<dots> = str_in (lower n) (lower h)"
    by (simp only: str_in_position)
  finally show ?thesis by simp
qed

lemma create_ad_business:
  assumes "Advertisement.ad_type ad = AdBusiness"
  shows "create_ad L st ad =
     (if Advertisement.designers ad = []
      then (Inl (HTTPException 400 ''Business ads must include designers responsible''), st)
      else if filter (\<lambda>n. \<not> ci_occurs n (Advertisement.heading ad)) (Advertisement.designers ad) \<noteq> []
      then (Inl (HTTPException 400 (''Heading must include designers: '' @
              join '', '' (filter (\<lambda>n. \<not> ci_occurs n (Advertisement.heading ad))
                             (Advertisement.designers ad)))), st)
      else (Inr (IdResponse (fst (create_document L ''advertisement'' (Advertisement_dump ad) st))),
            snd (create_document L ''advertisement'' (Advertisement_dump ad) st)))"
  using assms by (simp add: create_ad_def Let_def str_in_lower split_beta)




section \<open>References are checked before a document is created\<close>

lemma add_portfolio_cases:
  "add_portfolio L st item =
     (if ObjectId L (PortfolioItem.freelancer_id item) = None
      then (Inl (HTTPException 400 ''Invalid freelancer_id''), st)
      else if \<not> resolves L st ''freelancer'' (PortfolioItem.freelancer_id item)
      then (Inl (HTTPException 404 ''Freelancer not found''), st)
      else (Inr (IdResponse (str L (ObjId (Oid (next_id st))))),
            snd (create_document L ''portfolioitem'' (PortfolioItem_dump item) st)))"
  by (auto simp: add_portfolio_def resolves_def truthy_find_id create_document_def Let_def
      split: option.splits)

lemma create_post_cases:
  "create_post L st post =
     (if ObjectId L (ForumPost.thread_id post) = None
      then (Inl (HTTPException 400 ''Invalid thread_id''), st)
      else if \<not> resolves L st ''forumthread'' (ForumPost.thread_id post)
      then (Inl (HTTPException 404 ''Thread not found''), st)
      else (Inr (IdResponse (str L (ObjId (Oid (next_id st))))),
            snd (create_document L ''forumpost'' (ForumPost_dump post) st)))"
  by (auto simp: create_post_def resolves_def truthy_find_id create_document_def Let_def
      split: option.splits)

lemma create_reservation_unresolved:
  "\<not> resolves L st ''freelancer'' (Reservation.freelancer_id res) \<Longrightarrow>
   create_reservation L st res =
     (if ObjectId L (Reservation.freelancer_id res) = None
      then (Inl (HTTPException 400 ''Invalid freelancer_id''), st)
      else (Inl (HTTPException 404 ''Freelancer not found''), st))"
  by (auto simp: create_reservation_def resolves_def truthy_find_id split: option.splits)

lemma create_freelancer_eq:
  "create_freelancer L st payload =
     (Inr (IdResponse (str L (ObjId (Oid (next_id st))))),
      snd (create_document L ''freelancer'' (Freelancer_dump payload) st))"
  by (simp add: create_freelancer_def create_document_def Let_def)

lemma create_thread_eq:
  "create_thread L st thread =
     (Inr (IdResponse (str L (ObjId (Oid (next_id st))))),
      snd (create_document L ''forumthread'' (ForumThread_dump thread) st))"
  by (simp add: create_thread_def create_document_def Let_def)

lemma resolves_parses: "resolves L st c s \<Longrightarrow> ObjectId L s \<noteq> None"
  by (auto simp: resolves_def split: option.splits)

text \<open>
  C3. For every creation request for a PortfolioItem, a Reservation or a ForumPost: if
  the referenced id field (\<^verbatim>\<open>freelancer_id\<close> or \<^verbatim>\<open>thread_id\<close>) does not parse as
  an identifier, the request fails with status 400; if it parses and no document of the
  referenced collection has that identifier, the request fails with status 404; and the
  handler gets past the two checks (its status is neither 400 nor 404) exactly when the
  reference resolves.
\<close>

theorem reference_is_checked_before_create:
  "(ObjectId L (PortfolioItem.freelancer_id item) = None \<longrightarrow>
      add_portfolio L st item = (Inl (HTTPException 400 ''Invalid freelancer_id''), st))
   \<and> (ObjectId L (PortfolioItem.freelancer_id item) \<noteq> None \<and>
       \<not> resolves L st ''freelancer'' (PortfolioItem.freelancer_id item) \<longrightarrow>
      add_portfolio L st item = (Inl (HTTPException 404 ''Freelancer not found''), st))
   \<and> ((http_status (fst (add_portfolio L st item)) \<notin> {400, 404}) =
        resolves L st ''freelancer'' (PortfolioItem.freelancer_id item))
   \<and> (ObjectId L (Reservation.freelancer_id res) = None \<longrightarrow>
      create_reservation L st res = (Inl (HTTPException 400 ''Invalid freelancer_id''), st))
   \<and> (ObjectId L (Reservation.freelancer_id res) \<noteq> None \<and>
       \<not> resolves L st ''freelancer'' (Reservation.freelancer_id res) \<longrightarrow>
      create_reservation L st res = (Inl (HTTPException 404 ''Freelancer not found''), st))
   \<and> ((http_status (fst (create_reservation L st res)) \<notin> {400, 404}) =
        resolves L st ''freelancer'' (Reservation.freelancer_id res))
   \<and> (ObjectId L (ForumPost.thread_id post) = None \<longrightarrow>
      create_post L st post = (Inl (HTTPException 400 ''Invalid thread_id''), st))
   \<and> (ObjectId L (ForumPost.thread_id post) \<noteq> None \<and>
       \<not> resolves L st ''forumthread'' (ForumPost.thread_id post) \<longrightarrow>
      create_post L st post = (Inl (HTTPException 404 ''Thread not found''), st))
   \<and> ((http_status (fst (create_post L st post)) \<notin> {400, 404}) =
        resolves L st ''forumthread'' (ForumPost.thread_id post))"
proof (intro conjI)
  show "ObjectId L (PortfolioItem.freelancer_id item) = None \<longrightarrow>
      add_portfolio L st item = (Inl (HTTPException 400 ''Invalid freelancer_id''), st)"
    by (simp add: add_portfolio_cases)
  show "ObjectId L (PortfolioItem.freelancer_id item) \<noteq> None \<and>
       \<not> resolves L st ''freelancer'' (PortfolioItem.freelancer_id item) \<longrightarrow>
      add_portfolio L st item = (Inl (HTTPException 404 ''Freelancer not found''), st)"
    by (simp add: add_portfolio_cases)
  show "(http_status (fst (add_portfolio L st item)) \<notin> {400, 404}) =
        resolves L st ''freelancer'' (PortfolioItem.freelancer_id item)"
    using resolves_parses[of L st "''freelancer''" "PortfolioItem.freelancer_id item"]
    by (auto simp: add_portfolio_cases)
  show "ObjectId L (Reservation.freelancer_id res) = None \<longrightarrow>
      create_reservation L st res = (Inl (HTTPException 400 ''Invalid freelancer_id''), st)"
    by (simp add: create_reservation_def)
  show "ObjectId L (Reservation.freelancer_id res) \<noteq> None \<and>
       \<not> resolves L st ''freelancer'' (Reservation.freelancer_id res) \<longrightarrow>
      create_reservation L st res = (Inl (HTTPException 404 ''Freelancer not found''), st)"
    by (simp add: create_reservation_unresolved)
  show "(http_status (fst (create_reservation L st res)) \<notin> {400, 404}) =
        resolves L st ''freelancer'' (Reservation.freelancer_id res)"
  proof (cases "resolves L st ''freelancer'' (Reservation.freelancer_id res)")
    case True
    then show ?thesis by (simp add: create_reservation_cases)
  next
    case False
    then show ?thesis by (simp add: create_reservation_unresolved)
  qed
  show "ObjectId L (ForumPost.thread_id post) = None \<longrightarrow>
      create_post L st post = (Inl (HTTPException 400 ''Invalid thread_id''), st)"
    by (simp add: create_post_cases)
  show "ObjectId L (ForumPost.thread_id post) \<noteq> None \<and>
       \<not> resolves L st ''forumthread'' (ForumPost.thread_id post) \<longrightarrow>
      create_post L st post = (Inl (HTTPException 404 ''Thread not found''), st)"
    by (simp add: create_post_cases)
  show "(http_status (fst (create_post L st post)) \<notin> {400, 404}) =
        resolves L st ''forumthread'' (ForumPost.thread_id post)"
    using resolves_parses[of L st "''forumthread''" "ForumPost.thread_id post"]
    by (auto simp: create_post_cases)
qed

theorem reference_is_checked_before_create_witness:
  "ObjectId lib0 (PortfolioItem.freelancer_id (piece ''ana'')) = None
   \<and> add_portfolio lib0 one_freelancer (piece ''ana'') =
         (Inl (HTTPException 400 ''Invalid freelancer_id''), one_freelancer)
   \<and> ObjectId lib0 (ForumPost.thread_id (reply ''000000000000000000000000'')) \<noteq> None
   \<and> \<not> resolves lib0 one_freelancer ''forumthread''
           (ForumPost.thread_id (reply ''000000000000000000000000''))
   \<and> create_post lib0 one_freelancer (reply ''000000000000000000000000'') =
         (Inl (HTTPException 404 ''Thread not found''), one_freelancer)
   \<and> resolves lib0 one_freelancer ''freelancer'' (Reservation.freelancer_id (booking 540 600))
   \<and> http_status (fst (create_reservation lib0 one_freelancer (booking 540 600))) \<notin> {400, 404}"
proof -
  note inst = reference_is_checked_before_create[where L = lib0 and st = one_freelancer
      and item = "piece ''ana''" and res = "booking 540 600"
      and post = "reply ''000000000000000000000000''"]
  have p: "ObjectId lib0 (PortfolioItem.freelancer_id (piece ''ana'')) = None"
    by code_simp
  have q: "ObjectId lib0 (ForumPost.thread_id (reply ''000000000000000000000000'')) \<noteq> None"
    by code_simp
  have n: "\<not> resolves lib0 one_freelancer ''forumthread''
           (ForumPost.thread_id (reply ''000000000000000000000000''))"
    by code_simp
  have r: "resolves lib0 one_freelancer ''freelancer'' (Reservation.freelancer_id (booking 540 600))"
    by code_simp
  from inst p have a: "add_portfolio lib0 one_freelancer (piece ''ana'') =
         (Inl (HTTPException 400 ''Invalid freelancer_id''), one_freelancer)"
    by blast
  from inst q n have b: "create_post lib0 one_freelancer (reply ''000000000000000000000000'') =
         (Inl (HTTPException 404 ''Thread not found''), one_freelancer)"
    by blast
  from inst r have c:
    "http_status (fst (create_reservation lib0 one_freelancer (booking 540 600))) \<notin> {400, 404}"
    by blast
  from p a q n b r c show ?thesis by blast
qed

section \<open>A rejected request writes nothing\<close>

lemma create_ad_unchanged: "fst (create_ad L st ad) = Inl e \<Longrightarrow>
   status_code e = 400 \<and> snd (create_ad L st ad) = st"
  by (auto simp: create_ad_def Let_def split_beta split: if_splits option.splits)

lemma create_reservation_unchanged: "fst (create_reservation L st res) = Inl e \<Longrightarrow>
   status_code e \<in> {400, 404, 409} \<and> snd (create_reservation L st res) = st"
  by (auto simp: create_reservation_def Let_def split_beta split: if_splits option.splits)

lemma add_portfolio_unchanged: "fst (add_portfolio L st item) = Inl e \<Longrightarrow>
   status_code e \<in> {400, 404} \<and> snd (add_portfolio L st item) = st"
  by (auto simp: add_portfolio_def Let_def split_beta split: if_splits option.splits)

lemma create_post_unchanged: "fst (create_post L st p) = Inl e \<Longrightarrow>
   status_code e \<in> {400, 404} \<and> snd (create_post L st p) = st"
  by (auto simp: create_post_def Let_def split_beta split: if_splits option.splits)

lemma post_unchanged:
  assumes "\<And>payload e. fst (h st payload) = Inl e \<Longrightarrow>
             status_code e \<in> {400, 404, 409, 422} \<and> snd (h st payload) = st"
  shows "fst (app_post v h st body) = Inl e \<longrightarrow>
           status_code e \<in> {400, 404, 409, 422} \<and> snd (app_post v h st body) = st"
  using assms by (auto simp: app_post_def split: option.splits)

text \<open>
  C4. For every creation request on any resource, validation, business-rule and
  referential errors are detected before any write to the store: when the request is
  rejected, the status is one of 400, 404, 409 and 422, and the store after the request
  is the store before it, so no document is inserted into any collection.
\<close>

theorem rejected_request_leaves_store:
  "(\<forall>e. fst (app_post v1 (create_freelancer L) st b1) = Inl e \<longrightarrow>
        status_code e \<in> {400, 404, 409, 422} \<and> snd (app_post v1 (create_freelancer L) st b1) = st)
   \<and> (\<forall>e. fst (app_post v2 (add_portfolio L) st b2) = Inl e \<longrightarrow>
        status_code e \<in> {400, 404, 409, 422} \<and> snd (app_post v2 (add_portfolio L) st b2) = st)
   \<and> (\<forall>e. fst (app_post v3 (create_reservation L) st b3) = Inl e \<longrightarrow>
        status_code e \<in> {400, 404, 409, 422} \<and> snd (app_post v3 (create_reservation L) st b3) = st)
   \<and> (\<forall>e. fst (app_post v4 (create_ad L) st b4) = Inl e \<longrightarrow>
        status_code e \<in> {400, 404, 409, 422} \<and> snd (app_post v4 (create_ad L) st b4) = st)
   \<and> (\<forall>e. fst (app_post v5 (create_thread L) st b5) = Inl e \<longrightarrow>
        status_code e \<in> {400, 404, 409, 422} \<and> snd (app_post v5 (create_thread L) st b5) = st)
   \<and> (\<forall>e. fst (app_post v6 (create_post L) st b6) = Inl e \<longrightarrow>
        status_code e \<in> {400, 404, 409, 422} \<and> snd (app_post v6 (create_post L) st b6) = st)"
proof (intro conjI allI)
  fix e
  show "fst (app_post v1 (create_freelancer L) st b1) = Inl e \<longrightarrow>
        status_code e \<in> {400, 404, 409, 422} \<and> snd (app_post v1 (create_freelancer L) st b1) = st"
    by (rule post_unchanged) (simp add: create_freelancer_eq)
  show "fst (app_post v2 (add_portfolio L) st b2) = Inl e \<longrightarrow>
        status_code e \<in> {400, 404, 409, 422} \<and> snd (app_post v2 (add_portfolio L) st b2) = st"
    by (rule post_unchanged) (use add_portfolio_unchanged in auto)
  show "fst (app_post v3 (create_reservation L) st b3) = Inl e \<longrightarrow>
        status_code e \<in> {400, 404, 409, 422} \<and> snd (app_post v3 (create_reservation L) st b3) = st"
    by (rule post_unchanged) (use create_reservation_unchanged in auto)
  show "fst (app_post v4 (create_ad L) st b4) = Inl e \<longrightarrow>
        status_code e \<in> {400, 404, 409, 422} \<and> snd (app_post v4 (create_ad L) st b4) = st"
    by (rule post_unchanged) (use create_ad_unchanged in auto)
  show "fst (app_post v5 (create_thread L) st b5) = Inl e \<longrightarrow>
        status_code e \<in> {400, 404, 409, 422} \<and> snd (app_post v5 (create_thread L) st b5) = st"
    by (rule post_unchanged) (simp add: create_thread_eq)
  show "fst (app_post v6 (create_post L) st b6) = Inl e \<longrightarrow>
        status_code e \<in> {400, 404, 409, 422} \<and> snd (app_post v6 (create_post L) st b6) = st"
    by (rule post_unchanged) (use create_post_unchanged in auto)
qed

theorem rejected_request_leaves_store_witness:
  "fst (app_post Some (create_reservation lib0) booked_9_10 (booking 570 630)) =
      Inl (HTTPException 409 ''Reservation overlaps with an existing booking'')
   \<and> snd (app_post Some (create_reservation lib0) booked_9_10 (booking 570 630)) = booked_9_10
   \<and> fst (app_post Map.empty (create_thread lib0) empty_store ()) = Inl RequestValidationError
   \<and> snd (app_post Map.empty (create_thread lib0) empty_store ()) = empty_store"
proof -
  note inst = rejected_request_leaves_store[where L = lib0 and st = booked_9_10
      and ?v3.0 = Some and ?b3.0 = "booking 570 630"]
  note inst' = rejected_request_leaves_store[where L = lib0 and st = empty_store
      and ?v5.0 = Map.empty and ?b5.0 = "()"]
  have a: "fst (app_post Some (create_reservation lib0) booked_9_10 (booking 570 630)) =
      Inl (HTTPException 409 ''Reservation overlaps with an existing booking'')"
    by code_simp
  have b: "fst (app_post Map.empty (create_thread lib0) empty_store ()) = Inl RequestValidationError"
    by (simp add: app_post_def)
  have c:
    "snd (app_post Some (create_reservation lib0) booked_9_10 (booking 570 630)) = booked_9_10"
    using inst[THEN conjunct2, THEN conjunct2, THEN conjunct1, rule_format, OF a]
    by (rule conjunct2)
  have d: "snd (app_post Map.empty (create_thread lib0) empty_store ()) = empty_store"
    using inst'[THEN conjunct2, THEN conjunct2, THEN conjunct2, THEN conjunct2, THEN conjunct1,
        rule_format, OF b]
    by (rule conjunct2)
  from a b c d show ?thesis by blast
qed

section \<open>Listing: limits and filters\<close>

lemma query_ok_if_given_Eq: "list_all (query_ok L) (if_given p (\<lambda>v. Key k (Eq (f v))))"
  by (cases p) auto

lemma query_ok_filt_portfolio: "query_ok L (filt_portfolio f)"
  by (simp add: filt_portfolio_def query_ok_if_given_Eq)

lemma query_ok_filt_reservations: "query_ok L (filt_reservations f b)"
  by (simp add: filt_reservations_def query_ok_if_given_Eq)

lemma query_ok_filt_ads: "query_ok L (filt_ads a)"
  by (simp add: filt_ads_def query_ok_if_given_Eq)

lemma query_ok_filt_posts: "query_ok L (filt_posts t)"
  by (simp add: filt_posts_def)

lemma get_documents_ok:
  "query_ok L q \<Longrightarrow>
   get_documents L c q limit st =
     Inr (case limit of None \<Rightarrow> matching L st c q | Some n \<Rightarrow> take n (matching L st c q))"
  by (simp add: get_documents_def matching_def Let_def split: option.splits)

lemma get_documents_rejected: "\<not> query_ok L q \<Longrightarrow> get_documents L c q limit st = Inl OperationFailure"
  by (simp add: get_documents_def)

lemma list_portfolio_eq:
  "list_portfolio L st f =
     Inr (ItemsResponse (map (with_str_id L) (matching L st ''portfolioitem'' (filt_portfolio f))))"
  by (simp add: list_portfolio_def items_def get_documents_ok query_ok_filt_portfolio)

lemma list_reservations_eq:
  "list_reservations L st f b =
     Inr (ItemsResponse (map (with_str_id L) (matching L st ''reservation'' (filt_reservations f b))))"
  by (simp add: list_reservations_def items_def get_documents_ok query_ok_filt_reservations)

lemma list_ads_eq:
  "list_ads L st a =
     Inr (ItemsResponse (map (with_str_id L) (take 50 (matching L st ''advertisement'' (filt_ads a)))))"
  by (simp add: list_ads_def items_def get_documents_ok query_ok_filt_ads)

lemma list_posts_eq:
  "list_posts L st t =
     Inr (ItemsResponse (map (with_str_id L) (take 200 (matching L st ''forumpost'' (filt_posts t)))))"
  by (simp add: list_posts_def items_def get_documents_ok query_ok_filt_posts)

lemma list_freelancers_eq:
  "list_freelancers L st s =
     (if query_ok L (filt_freelancers s)
      then Inr (ItemsResponse (map (with_str_id L) (matching L st ''freelancer'' (filt_freelancers s))))
      else Inl OperationFailure)"
  by (simp add: list_freelancers_def items_def get_documents_ok get_documents_rejected)

lemma list_threads_eq:
  "list_threads L st t =
     (if query_ok L (filt_threads t)
      then Inr (ItemsResponse (map (with_str_id L) (take 50 (matching L st ''forumthread'' (filt_threads t)))))
      else Inl OperationFailure)"
  by (simp add: list_threads_def items_def get_documents_ok get_documents_rejected)

text \<open>
  C6. For every store state, the advertisement and forum-thread list endpoints return at
  most 50 items, the forum-post list endpoint returns at most 200 items, and the
  freelancer, portfolio and reservation list endpoints return every document their filter
  matches, with no cap (the freelancer listing when the store accepts its filter).
\<close>

theorem list_limits:
  "item_count (list_ads L st a) \<le> 50
   \<and> item_count (list_threads L st t) \<le> 50
   \<and> item_count (list_posts L st p) \<le> 200
   \<and> (query_ok L (filt_freelancers s) \<longrightarrow>
        list_freelancers L st s =
          Inr (ItemsResponse (map (with_str_id L) (matching L st ''freelancer'' (filt_freelancers s)))))
   \<and> list_portfolio L st f =
        Inr (ItemsResponse (map (with_str_id L) (matching L st ''portfolioitem'' (filt_portfolio f))))
   \<and> list_reservations L st r b =
        Inr (ItemsResponse (map (with_str_id L) (matching L st ''reservation'' (filt_reservations r b))))"
proof (intro conjI)
  show "item_count (list_ads L st a) \<le> 50"
    by (simp add: list_ads_eq item_count_def)
  show "item_count (list_threads L st t) \<le> 50"
    by (simp add: list_threads_eq item_count_def)
  show "item_count (list_posts L st p) \<le> 200"
    by (simp add: list_posts_eq item_count_def)
  show "query_ok L (filt_freelancers s) \<longrightarrow>
        list_freelancers L st s =
          Inr (ItemsResponse (map (with_str_id L) (matching L st ''freelancer'' (filt_freelancers s))))"
    by (simp add: list_freelancers_eq)
  show "list_portfolio L st f =
        Inr (ItemsResponse (map (with_str_id L) (matching L st ''portfolioitem'' (filt_portfolio f))))"
    by (rule list_portfolio_eq)
  show "list_reservations L st r b =
        Inr (ItemsResponse (map (with_str_id L) (matching L st ''reservation'' (filt_reservations r b))))"
    by (rule list_reservations_eq)
qed

theorem list_limits_witness:
  "item_count (list_ads lib0 one_freelancer None) \<le> 50
   \<and> item_count (list_threads lib0 one_thread (Some ''ux'')) \<le> 50
   \<and> item_count (list_posts lib0 one_post ''000000000000000000000000'') \<le> 200
   \<and> query_ok lib0 (filt_freelancers (Some ''ux''))
   \<and> list_freelancers lib0 one_freelancer (Some ''ux'') =
       Inr (ItemsResponse (map (with_str_id lib0)
         (matching lib0 one_freelancer ''freelancer'' (filt_freelancers (Some ''ux'')))))
   \<and> length (matching lib0 one_freelancer ''freelancer'' (filt_freelancers (Some ''ux''))) = 1
   \<and> item_count (list_reservations lib0 booked_9_10 None (Some ''office@acme.example'')) = 1"
proof -
  note inst = list_limits[where L = lib0 and st = one_freelancer and a = None
      and s = "Some ''ux''"]
  note inst1 = list_limits[where L = lib0 and st = one_thread and t = "Some ''ux''"]
  note inst2 = list_limits[where L = lib0 and st = one_post
      and p = "''000000000000000000000000''"]
  note inst3 = list_limits[where L = lib0 and st = booked_9_10 and r = None
      and b = "Some ''office@acme.example''"]
  have ok: "query_ok lib0 (filt_freelancers (Some ''ux''))"
    by code_simp
  have one: "length (matching lib0 one_freelancer ''freelancer'' (filt_freelancers (Some ''ux''))) = 1"
    by code_simp
  have one': "length (matching lib0 booked_9_10 ''reservation''
                (filt_reservations None (Some ''office@acme.example''))) = 1"
    by code_simp
  have r: "item_count (list_reservations lib0 booked_9_10 None (Some ''office@acme.example'')) = 1"
    using inst3 one' by (simp add: item_count_def)
  from inst inst1 inst2 ok one r show ?thesis by blast
qed






lemma coll_repeat:
  assumes "\<And>s. snd (h s) = snd (create_document L c data s)"
  shows "coll (repeat n h st) c =
           coll st c @ map (\<lambda>i. stored i (AList.delete ''_id'' data)) [next_id st ..< next_id st + n]
         \<and> next_id (repeat n h st) = next_id st + n"
proof (induction n arbitrary: st)
  case 0
  show ?case by simp
next
  case (Suc n)
  have step: "[next_id st ..< next_id st + Suc n] = next_id st # [Suc (next_id st) ..< Suc (next_id st) + n]"
    by (simp add: upt_conv_Cons)
  show ?case
    unfolding repeat.simps step
    by (simp add: Suc assms coll_create_document next_id_create_document)
qed

lemma delete_id_ForumThread: "AList.delete ''_id'' (ForumThread_dump t) = ForumThread_dump t"
  by (simp add: ForumThread_dump_def AList.delete_eq)






section \<open>A created entity is listed\<close>

lemma with_str_id_stored:
  "with_str_id L (stored n data) = (''_id'', Str (str L (ObjId (Oid n)))) # data"
  by (simp add: with_str_id_def stored_def)

lemma matching_create_document:
  "matching L (snd (create_document L c data st)) c q =
     matching L st c q @
     (if matches L (stored (next_id st) (AList.delete ''_id'' data)) q
      then [stored (next_id st) (AList.delete ''_id'' data)] else [])"
  by (simp add: matching_def coll_create_document)

lemma listed_after_create:
  assumes ok: "query_ok L q"
    and m: "matches L (stored (next_id st) data) q"
    and d: "AList.delete ''_id'' data = data"
    and room: "case limit of None \<Rightarrow> True | Some n \<Rightarrow> length (matching L st c q) < n"
  shows "listed (items L (get_documents L c q limit (snd (create_document L c data st))))
           (str L (ObjId (Oid (next_id st)))) data"
proof -
  let ?new = "stored (next_id st) data"
  let ?st' = "snd (create_document L c data st)"
  have all: "matching L ?st' c q = matching L st c q @ [?new]"
    using m d by (simp add: matching_create_document)
  have "?new \<in> set (case limit of None \<Rightarrow> matching L ?st' c q
                      | Some n \<Rightarrow> take n (matching L ?st' c q))"
  proof (cases limit)
    case None
    then show ?thesis by (simp add: all)
  next
    case (Some n)
    with room have "length (matching L st c q) < n" by simp
    then have "take n (matching L ?st' c q) = matching L st c q @ [?new]"
      by (simp add: all)
    with Some show ?thesis by simp
  qed
  then have "with_str_id L ?new \<in> set (map (with_str_id L)
      (case limit of None \<Rightarrow> matching L ?st' c q | Some n \<Rightarrow> take n (matching L ?st' c q)))"
    by simp
  then show ?thesis
    by (simp add: get_documents_ok[OF ok] items_def listed_def with_str_id_stored)
qed

lemma delete_id_Freelancer: "AList.delete ''_id'' (Freelancer_dump f) = Freelancer_dump f"
  by (simp add: Freelancer_dump_def AList.delete_eq)

lemma delete_id_PortfolioItem: "AList.delete ''_id'' (PortfolioItem_dump p) = PortfolioItem_dump p"
  by (simp add: PortfolioItem_dump_def AList.delete_eq)

lemma delete_id_Advertisement: "AList.delete ''_id'' (Advertisement_dump a) = Advertisement_dump a"
  by (simp add: Advertisement_dump_def AList.delete_eq)

lemma delete_id_ForumPost: "AList.delete ''_id'' (ForumPost_dump p) = ForumPost_dump p"
  by (simp add: ForumPost_dump_def AList.delete_eq)

lemma add_portfolio_created:
  "add_portfolio L st item = (Inr (IdResponse i), st') \<Longrightarrow>
   i = str L (ObjId (Oid (next_id st))) \<and>
   st' = snd (create_document L ''portfolioitem'' (PortfolioItem_dump item) st)"
  by (auto simp: add_portfolio_cases split: if_splits)

lemma create_reservation_created:
  "create_reservation L st res = (Inr (IdResponse i), st') \<Longrightarrow>
   i = str L (ObjId (Oid (next_id st))) \<and>
   st' = snd (create_document L ''reservation'' (Reservation_dump res) st)"
  by (auto simp: create_reservation_def create_document_def Let_def split: option.splits if_splits)

lemma create_ad_created:
  "create_ad L st ad = (Inr (IdResponse i), st') \<Longrightarrow>
   i = str L (ObjId (Oid (next_id st))) \<and>
   st' = snd (create_document L ''advertisement'' (Advertisement_dump ad) st)"
  by (auto simp: create_ad_def create_document_def Let_def split: option.splits if_splits)

lemma create_post_created:
  "create_post L st p = (Inr (IdResponse i), st') \<Longrightarrow>
   i = str L (ObjId (Oid (next_id st))) \<and>
   st' = snd (create_document L ''forumpost'' (ForumPost_dump p) st)"
  by (auto simp: create_post_cases split: if_splits)

text \<open>
  C7 (as amended). For every entity successfully created via its POST endpoint, a
  subsequent call to the same resource's list endpoint, with a filter that the store
  accepts and that matches the entity (or with no filter), returns the entity with its
  identifier as a string under the key \<^verbatim>\<open>_id\<close>, equal to the id string returned
  at creation: always for freelancers, portfolio items and reservations; for
  advertisements and forum threads when fewer than 50 documents matching the filter were
  in the collection before it, and for forum posts when fewer than 200 posts of the
  thread were.
\<close>

theorem created_entity_is_listed:
  "(create_freelancer L st fr = (Inr (IdResponse i1), st1) \<and>
    query_ok L (filt_freelancers s) \<and>
    matches L (stored (next_id st) (Freelancer_dump fr)) (filt_freelancers s) \<longrightarrow>
      listed (list_freelancers L st1 s) i1 (Freelancer_dump fr))
   \<and> (add_portfolio L st item = (Inr (IdResponse i2), st2) \<and>
    matches L (stored (next_id st) (PortfolioItem_dump item)) (filt_portfolio f) \<longrightarrow>
      listed (list_portfolio L st2 f) i2 (PortfolioItem_dump item))
   \<and> (create_reservation L st res = (Inr (IdResponse i3), st3) \<and>
    matches L (stored (next_id st) (Reservation_dump res)) (filt_reservations r b) \<longrightarrow>
      listed (list_reservations L st3 r b) i3 (Reservation_dump res))
   \<and> (create_ad L st ad = (Inr (IdResponse i4), st4) \<and>
    matches L (stored (next_id st) (Advertisement_dump ad)) (filt_ads a) \<and>
    length (matching L st ''advertisement'' (filt_ads a)) < 50 \<longrightarrow>
      listed (list_ads L st4 a) i4 (Advertisement_dump ad))
   \<and> (create_thread L st thread = (Inr (IdResponse i5), st5) \<and>
    query_ok L (filt_threads t) \<and>
    matches L (stored (next_id st) (ForumThread_dump thread)) (filt_threads t) \<and>
    length (matching L st ''forumthread'' (filt_threads t)) < 50 \<longrightarrow>
      listed (list_threads L st5 t) i5 (ForumThread_dump thread))
   \<and> (create_post L st post = (Inr (IdResponse i6), st6) \<and>
    length (matching L st ''forumpost'' (filt_posts (ForumPost.thread_id post))) < 200 \<longrightarrow>
      listed (list_posts L st6 (ForumPost.thread_id post)) i6 (ForumPost_dump post))"
proof (intro conjI impI)
  assume h: "create_freelancer L st fr = (Inr (IdResponse i1), st1) \<and>
    query_ok L (filt_freelancers s) \<and>
    matches L (stored (next_id st) (Freelancer_dump fr)) (filt_freelancers s)"
  then have "i1 = str L (ObjId (Oid (next_id st)))"
    and "st1 = snd (create_document L ''freelancer'' (Freelancer_dump fr) st)"
    by (simp_all add: create_freelancer_eq)
  with h show "listed (list_freelancers L st1 s) i1 (Freelancer_dump fr)"
    unfolding list_freelancers_def Let_def
    by (simp only: listed_after_create[OF _ _ delete_id_Freelancer] option.case)
next
  assume h: "add_portfolio L st item = (Inr (IdResponse i2), st2) \<and>
    matches L (stored (next_id st) (PortfolioItem_dump item)) (filt_portfolio f)"
  then have "i2 = str L (ObjId (Oid (next_id st)))"
    and "st2 = snd (create_document L ''portfolioitem'' (PortfolioItem_dump item) st)"
    using add_portfolio_created by blast+
  with h show "listed (list_portfolio L st2 f) i2 (PortfolioItem_dump item)"
    unfolding list_portfolio_def Let_def
    by (simp only: listed_after_create[OF query_ok_filt_portfolio _ delete_id_PortfolioItem] option.case)
next
  assume h: "create_reservation L st res = (Inr (IdResponse i3), st3) \<and>
    matches L (stored (next_id st) (Reservation_dump res)) (filt_reservations r b)"
  then have "i3 = str L (ObjId (Oid (next_id st)))"
    and "st3 = snd (create_document L ''reservation'' (Reservation_dump res) st)"
    using create_reservation_created by blast+
  with h show "listed (list_reservations L st3 r b) i3 (Reservation_dump res)"
    unfolding list_reservations_def Let_def
    by (simp only: listed_after_create[OF query_ok_filt_reservations _ delete_id_Reservation] option.case)
next
  assume h: "create_ad L st ad = (Inr (IdResponse i4), st4) \<and>
    matches L (stored (next_id st) (Advertisement_dump ad)) (filt_ads a) \<and>
    length (matching L st ''advertisement'' (filt_ads a)) < 50"
  then have "i4 = str L (ObjId (Oid (next_id st)))"
    and "st4 = snd (create_document L ''advertisement'' (Advertisement_dump ad) st)"
    using create_ad_created by blast+
  with h show "listed (list_ads L st4 a) i4 (Advertisement_dump ad)"
    unfolding list_ads_def Let_def
    by (simp only: listed_after_create[OF query_ok_filt_ads _ delete_id_Advertisement] option.case)
next
  assume h: "create_thread L st thread = (Inr (IdResponse i5), st5) \<and>
    query_ok L (filt_threads t) \<and>
    matches L (stored (next_id st) (ForumThread_dump thread)) (filt_threads t) \<and>
    length (matching L st ''forumthread'' (filt_threads t)) < 50"
  then have "i5 = str L (ObjId (Oid (next_id st)))"
    and "st5 = snd (create_document L ''forumthread'' (ForumThread_dump thread) st)"
    by (simp_all add: create_thread_eq)
  with h show "listed (list_threads L st5 t) i5 (ForumThread_dump thread)"
    unfolding list_threads_def Let_def
    by (simp only: listed_after_create[OF _ _ delete_id_ForumThread] option.case)
next
  assume h: "create_post L st post = (Inr (IdResponse i6), st6) \<and>
    length (matching L st ''forumpost'' (filt_posts (ForumPost.thread_id post))) < 200"
  then have "i6 = str L (ObjId (Oid (next_id st)))"
    and "st6 = snd (create_document L ''forumpost'' (ForumPost_dump post) st)"
    using create_post_created by blast+
  moreover have "matches L (stored (next_id st) (ForumPost_dump post)) (filt_posts (ForumPost.thread_id post))"
    by (simp add: filt_posts_def stored_def ForumPost_dump_def)
  ultimately show "listed (list_posts L st6 (ForumPost.thread_id post)) i6 (ForumPost_dump post)"
    using h unfolding list_posts_def
    by (simp only: listed_after_create[OF query_ok_filt_posts _ delete_id_ForumPost] option.case)
qed

theorem created_entity_is_listed_witness:
  "create_freelancer lib0 empty_store ana =
      (Inr (IdResponse ''000000000000000000000000''), one_freelancer)
   \<and> query_ok lib0 (filt_freelancers (Some ''ux''))
   \<and> matches lib0 (stored (next_id empty_store) (Freelancer_dump ana)) (filt_freelancers (Some ''ux''))
   \<and> listed (list_freelancers lib0 one_freelancer (Some ''ux''))
        ''000000000000000000000000'' (Freelancer_dump ana)
   \<and> create_post lib0 one_thread (reply ''000000000000000000000000'') =
      (Inr (IdResponse ''000000000000000000000001''), one_post)
   \<and> length (matching lib0 one_thread ''forumpost''
        (filt_posts (ForumPost.thread_id (reply ''000000000000000000000000'')))) < 200
   \<and> listed (list_posts lib0 one_post (ForumPost.thread_id (reply ''000000000000000000000000'')))
        ''000000000000000000000001'' (ForumPost_dump (reply ''000000000000000000000000''))"
proof -
  note inst = created_entity_is_listed[where L = lib0 and st = empty_store and fr = ana
      and ?i1.0 = "''000000000000000000000000''" and ?st1.0 = one_freelancer
      and s = "Some ''ux''"]
  note inst' = created_entity_is_listed[where L = lib0 and st = one_thread
      and post = "reply ''000000000000000000000000''"
      and ?i6.0 = "''000000000000000000000001''" and ?st6.0 = one_post]
  have c: "create_freelancer lib0 empty_store ana =
      (Inr (IdResponse ''000000000000000000000000''), one_freelancer)"
    by code_simp
  have ok: "query_ok lib0 (filt_freelancers (Some ''ux''))"
    by code_simp
  have m: "matches lib0 (stored (next_id empty_store) (Freelancer_dump ana)) (filt_freelancers (Some ''ux''))"
    by code_simp
  have l: "listed (list_freelancers lib0 one_freelancer (Some ''ux''))
        ''000000000000000000000000'' (Freelancer_dump ana)"
    by (rule inst[THEN conjunct1, THEN mp]) (intro conjI c ok m)
  have c': "create_post lib0 one_thread (reply ''000000000000000000000000'') =
      (Inr (IdResponse ''000000000000000000000001''), one_post)"
    by code_simp
  have n: "length (matching lib0 one_thread ''forumpost''
        (filt_posts (ForumPost.thread_id (reply ''000000000000000000000000'')))) < 200"
    by code_simp
  have l': "listed (list_posts lib0 one_post (ForumPost.thread_id (reply ''000000000000000000000000'')))
        ''000000000000000000000001'' (ForumPost_dump (reply ''000000000000000000000000''))"
    by (rule inst'[THEN conjunct2, THEN conjunct2, THEN conjunct2, THEN conjunct2, THEN conjunct2,
          THEN mp]) (intro conjI c' n)
  from c ok m l c' n l' show ?thesis by blast
qed

lemma ana_ad_passes: "snd (create_ad lib0 s (ana_ad ''Ana's new page'')) =
    snd (create_document lib0 ''advertisement'' (Advertisement_dump (ana_ad ''Ana's new page'')) s)"
proof -
  have b: "Advertisement.ad_type (ana_ad ''Ana's new page'') = AdBusiness"
    by (simp add: ana_ad_def)
  have d: "Advertisement.designers (ana_ad ''Ana's new page'') \<noteq> []"
    by (simp add: ana_ad_def)
  have f: "filter (\<lambda>n. \<not> ci_occurs n (Advertisement.heading (ana_ad ''Ana's new page'')))
             (Advertisement.designers (ana_ad ''Ana's new page'')) = []"
    by code_simp
  show ?thesis
    by (simp add: create_ad_business[OF b] d f)
qed

lemma fifty_ads_coll:
  "coll fifty_ads ''advertisement'' =
     map (\<lambda>i. stored i (Advertisement_dump (ana_ad ''Ana's new page''))) [0 ..< 50]
   \<and> next_id fifty_ads = 50"
proof -
  have "coll (repeat 50 (\<lambda>st. create_ad lib0 st (ana_ad ''Ana's new page'')) empty_store) ''advertisement'' =
          coll empty_store ''advertisement'' @
          map (\<lambda>i. stored i (AList.delete ''_id'' (Advertisement_dump (ana_ad ''Ana's new page''))))
            [next_id empty_store ..< next_id empty_store + 50]
        \<and> next_id (repeat 50 (\<lambda>st. create_ad lib0 st (ana_ad ''Ana's new page'')) empty_store) =
          next_id empty_store + 50"
    by (rule coll_repeat) (rule ana_ad_passes)
  then show ?thesis
    by (simp add: fifty_ads_def delete_id_Advertisement empty_store_def coll_def)
qed

text \<open>
  C7 as stated fails on the code: after fifty advertisements, a newly created one, with
  a heading of its own, is not among the items of the advertisement listing.
\<close>

theorem created_ad_not_listed_counterexample:
  "fst (create_ad lib0 fifty_ads (ana_ad ''The page by Ana'')) =
      Inr (IdResponse ''000000000000000000000032'')
   \<and> \<not> listed (list_ads lib0 (snd (create_ad lib0 fifty_ads (ana_ad ''The page by Ana''))) None)
         ''000000000000000000000032'' (Advertisement_dump (ana_ad ''The page by Ana''))"
proof -
  let ?ad = "ana_ad ''The page by Ana''"
  let ?st' = "snd (create_document lib0 ''advertisement'' (Advertisement_dump ?ad) fifty_ads)"
  have b: "Advertisement.ad_type ?ad = AdBusiness"
    by (simp add: ana_ad_def)
  have d: "Advertisement.designers ?ad \<noteq> []"
    by (simp add: ana_ad_def)
  have f: "filter (\<lambda>n. \<not> ci_occurs n (Advertisement.heading ?ad)) (Advertisement.designers ?ad) = []"
    by code_simp
  have i: "str lib0 (ObjId (Oid 50)) = ''000000000000000000000032''"
    by code_simp
  have created: "create_ad lib0 fifty_ads ?ad = (Inr (IdResponse ''000000000000000000000032''), ?st')"
    by (simp add: create_ad_business[OF b] d f fst_create_document fifty_ads_coll i)
  have "matching lib0 ?st' ''advertisement'' (filt_ads None) = coll ?st' ''advertisement''"
    by (simp add: matching_def filt_ads_def)
  also have "\<dots> = map (\<lambda>i. stored i (Advertisement_dump (ana_ad ''Ana's new page''))) [0 ..< 50]
                  @ [stored 50 (Advertisement_dump ?ad)]"
    by (simp add: coll_create_document fifty_ads_coll delete_id_Advertisement)
  finally have "take 50 (matching lib0 ?st' ''advertisement'' (filt_ads None)) =
      map (\<lambda>i. stored i (Advertisement_dump (ana_ad ''Ana's new page''))) [0 ..< 50]"
    by simp
  then have listing: "list_ads lib0 ?st' None =
      Inr (ItemsResponse (map (with_str_id lib0)
        (map (\<lambda>i. stored i (Advertisement_dump (ana_ad ''Ana's new page''))) [0 ..< 50])))"
    by (simp add: list_ads_eq)
  have differ: "Advertisement_dump (ana_ad ''Ana's new page'') \<noteq> Advertisement_dump ?ad"
    by (simp add: Advertisement_dump_def ana_ad_def)
  have "\<not> listed (list_ads lib0 ?st' None) ''000000000000000000000032'' (Advertisement_dump ?ad)"
    unfolding listing listed_def using differ
    by (auto simp: with_str_id_stored)
  with created show ?thesis by simp
qed

section \<open>Degenerate reservations\<close>




section \<open>Listing forum posts\<close>

lemma matches_filt_posts:
  "matches L d (filt_posts t) = (map_of d ''thread_id'' = Some (Str t))"
  by (simp add: filt_posts_def)

text \<open>
  C9. The forum-post list endpoint never validates its \<^verbatim>\<open>thread_id\<close> parameter: for
  every \<^verbatim>\<open>thread_id\<close> string, also a malformed one or one that names no existing
  thread, it returns a 200 response with the posts whose \<^verbatim>\<open>thread_id\<close> is that string
  (at most 200), the empty list when there are none, and never a 400 or 404; the
  post-creation endpoint answers 400 or 404 for a \<^verbatim>\<open>thread_id\<close> that does not
  resolve.
\<close>

theorem list_posts_never_rejects:
  "list_posts L st t =
     Inr (ItemsResponse (map (with_str_id L)
       (take 200 (filter (\<lambda>d. map_of d ''thread_id'' = Some (Str t)) (coll st ''forumpost'')))))
   \<and> http_status (list_posts L st t) = 200
   \<and> (\<not> list_ex (\<lambda>d. map_of d ''thread_id'' = Some (Str t)) (coll st ''forumpost'') \<longrightarrow>
        list_posts L st t = Inr (ItemsResponse []))
   \<and> (\<not> resolves L st ''forumthread'' (ForumPost.thread_id post) \<longrightarrow>
        http_status (fst (create_post L st post)) \<in> {400, 404} \<and>
        http_status (list_posts L st (ForumPost.thread_id post)) = 200)"
proof -
  have eq: "list_posts L st t =
     Inr (ItemsResponse (map (with_str_id L)
       (take 200 (filter (\<lambda>d. map_of d ''thread_id'' = Some (Str t)) (coll st ''forumpost'')))))" for t
    by (simp add: list_posts_eq matching_def matches_filt_posts del: matches.simps)
  have none: "\<not> list_ex (\<lambda>d. map_of d ''thread_id'' = Some (Str t)) (coll st ''forumpost'') \<Longrightarrow>
      filter (\<lambda>d. map_of d ''thread_id'' = Some (Str t)) (coll st ''forumpost'') = []"
    by (simp add: list_ex_iff filter_empty_conv)
  have create: "\<not> resolves L st ''forumthread'' (ForumPost.thread_id post) \<Longrightarrow>
      http_status (fst (create_post L st post)) \<in> {400, 404}"
    by (simp add: create_post_cases)
  show ?thesis
    using none create by (simp add: eq)
qed

theorem list_posts_never_rejects_witness:
  "\<not> list_ex (\<lambda>d. map_of d ''thread_id'' = Some (Str ''no such thread'')) (coll one_post ''forumpost'')
   \<and> list_posts lib0 one_post ''no such thread'' = Inr (ItemsResponse [])
   \<and> \<not> resolves lib0 one_post ''forumthread'' (ForumPost.thread_id (reply ''no such thread''))
   \<and> http_status (fst (create_post lib0 one_post (reply ''no such thread''))) \<in> {400, 404}
   \<and> http_status (list_posts lib0 one_post (ForumPost.thread_id (reply ''no such thread''))) = 200"
proof -
  note inst = list_posts_never_rejects[where L = lib0 and st = one_post
      and t = "''no such thread''" and post = "reply ''no such thread''"]
  have a: "\<not> list_ex (\<lambda>d. map_of d ''thread_id'' = Some (Str ''no such thread'')) (coll one_post ''forumpost'')"
    by code_simp
  have b: "list_posts lib0 one_post ''no such thread'' = Inr (ItemsResponse [])"
    by (rule inst[THEN conjunct2, THEN conjunct2, THEN conjunct1, THEN mp]) (rule a)
  have c: "\<not> resolves lib0 one_post ''forumthread'' (ForumPost.thread_id (reply ''no such thread''))"
    by code_simp
  have d: "http_status (fst (create_post lib0 one_post (reply ''no such thread''))) \<in> {400, 404} \<and>
        http_status (list_posts lib0 one_post (ForumPost.thread_id (reply ''no such thread''))) = 200"
    by (rule inst[THEN conjunct2, THEN conjunct2, THEN conjunct2, THEN mp]) (rule c)
  from a b c d show ?thesis by blast
qed

section \<open>Empty query parameters\<close>

lemma matching_all: "matching L st c (And []) = coll st c"
  by (simp add: matching_def)

text \<open>
  C10 (as amended). On every list endpoint whose query parameter is optional (the
  \<^verbatim>\<open>skill\<close> of the freelancer listing, the \<^verbatim>\<open>freelancer_id\<close> of the portfolio
  listing, the \<^verbatim>\<open>freelancer_id\<close> and \<^verbatim>\<open>business_email\<close> of the reservation
  listing, the \<^verbatim>\<open>ad_type\<close> of the advertisement listing, the \<^verbatim>\<open>tag\<close> of the
  thread listing) an empty-string parameter is treated as absent rather than as a filter
  value: the response is the one without the parameter, which has all documents of the
  collection (the first 50 for advertisements and threads). The forum-post listing,
  whose \<^verbatim>\<open>thread_id\<close> is required, uses the empty string as a filter value.
\<close>

theorem empty_parameter_is_absent:
  "list_freelancers L st (Some '''') = list_freelancers L st None
   \<and> list_portfolio L st (Some '''') = list_portfolio L st None
   \<and> list_reservations L st (Some '''') b = list_reservations L st None b
   \<and> list_reservations L st f (Some '''') = list_reservations L st f None
   \<and> list_ads L st (Some '''') = list_ads L st None
   \<and> list_threads L st (Some '''') = list_threads L st None
   \<and> list_freelancers L st None = Inr (ItemsResponse (map (with_str_id L) (coll st ''freelancer'')))
   \<and> list_portfolio L st None = Inr (ItemsResponse (map (with_str_id L) (coll st ''portfolioitem'')))
   \<and> list_reservations L st None None =
       Inr (ItemsResponse (map (with_str_id L) (coll st ''reservation'')))
   \<and> list_ads L st None =
       Inr (ItemsResponse (map (with_str_id L) (take 50 (coll st ''advertisement''))))
   \<and> list_threads L st None =
       Inr (ItemsResponse (map (with_str_id L) (take 50 (coll st ''forumthread''))))
   \<and> list_posts L st '''' =
       Inr (ItemsResponse (map (with_str_id L)
         (take 200 (filter (\<lambda>d. map_of d ''thread_id'' = Some (Str '''')) (coll st ''forumpost'')))))"
proof (intro conjI)
  show "list_freelancers L st (Some '''') = list_freelancers L st None"
    by (simp add: list_freelancers_def filt_freelancers_def)
  show "list_portfolio L st (Some '''') = list_portfolio L st None"
    by (simp add: list_portfolio_def filt_portfolio_def)
  show "list_reservations L st (Some '''') b = list_reservations L st None b"
    by (simp add: list_reservations_def filt_reservations_def)
  show "list_reservations L st f (Some '''') = list_reservations L st f None"
    by (simp add: list_reservations_def filt_reservations_def)
  show "list_ads L st (Some '''') = list_ads L st None"
    by (simp add: list_ads_def filt_ads_def)
  show "list_threads L st (Some '''') = list_threads L st None"
    by (simp add: list_threads_def filt_threads_def)
  show "list_freelancers L st None = Inr (ItemsResponse (map (with_str_id L) (coll st ''freelancer'')))"
    by (simp add: list_freelancers_eq filt_freelancers_def matching_all)
  show "list_portfolio L st None = Inr (ItemsResponse (map (with_str_id L) (coll st ''portfolioitem'')))"
    by (simp add: list_portfolio_eq filt_portfolio_def matching_all)
  show "list_reservations L st None None =
       Inr (ItemsResponse (map (with_str_id L) (coll st ''reservation'')))"
    by (simp add: list_reservations_eq filt_reservations_def matching_all)
  show "list_ads L st None =
       Inr (ItemsResponse (map (with_str_id L) (take 50 (coll st ''advertisement''))))"
    by (simp add: list_ads_eq filt_ads_def matching_all)
  show "list_threads L st None =
       Inr (ItemsResponse (map (with_str_id L) (take 50 (coll st ''forumthread''))))"
    by (simp add: list_threads_eq filt_threads_def matching_all)
  show "list_posts L st '''' =
       Inr (ItemsResponse (map (with_str_id L)
         (take 200 (filter (\<lambda>d. map_of d ''thread_id'' = Some (Str '''')) (coll st ''forumpost'')))))"
    by (simp add: list_posts_eq matching_def matches_filt_posts del: matches.simps)
qed

theorem empty_parameter_is_absent_witness:
  "list_reservations lib0 booked_9_10 None (Some '''') = list_reservations lib0 booked_9_10 None None
   \<and> list_portfolio lib0 booked_9_10 (Some '''') =
       Inr (ItemsResponse (map (with_str_id lib0) (coll booked_9_10 ''portfolioitem'')))
   \<and> item_count (list_reservations lib0 booked_9_10 None (Some '''')) = 1
   \<and> item_count (list_reservations lib0 booked_9_10 None (Some ''nobody@example.org'')) = 0"
proof -
  note inst = empty_parameter_is_absent[where L = lib0 and st = booked_9_10 and f = None]
  have a: "list_reservations lib0 booked_9_10 None (Some '''') = list_reservations lib0 booked_9_10 None None"
    by (rule inst[THEN conjunct2, THEN conjunct2, THEN conjunct2, THEN conjunct1])
  have b: "list_portfolio lib0 booked_9_10 (Some '''') =
       Inr (ItemsResponse (map (with_str_id lib0) (coll booked_9_10 ''portfolioitem'')))"
    using inst by simp
  have n: "length (coll booked_9_10 ''reservation'') = 1"
    by code_simp
  have c: "item_count (list_reservations lib0 booked_9_10 None (Some '''')) = 1"
    using inst n by (simp add: item_count_def)
  have d: "item_count (list_reservations lib0 booked_9_10 None (Some ''nobody@example.org'')) = 0"
    by code_simp
  from a b c d show ?thesis by blast
qed

text \<open>
  C10 as stated fails on the code: the forum-post listing is a list endpoint, and with
  the empty string as \<^verbatim>\<open>thread_id\<close> it returns no item from a collection that has a
  post.
\<close>

theorem empty_thread_id_counterexample:
  "list_posts lib0 one_post '''' = Inr (ItemsResponse [])
   \<and> length (coll one_post ''forumpost'') = 1
   \<and> item_count (list_posts lib0 one_post ''000000000000000000000000'') = 1"
  by code_simp

end
